theory Spec2Isabelle
  imports Complex_Main
begin

section \<open>The plant monitor: channels, colours, navigation\<close>

text \<open>
  A shallow embedding of \<^verbatim>\<open>examples/new/monitor.py\<close>: the colour interpolation of
  \<^verbatim>\<open>Channel.indicator_color\<close>, the configuration load \<^verbatim>\<open>Channel.update_from_yml\<close>,
  the watering and alarm logic of \<^verbatim>\<open>Channel.water\<close> and \<^verbatim>\<open>Channel.update\<close>, and the
  button handler \<^verbatim>\<open>handle_button\<close>.

  Conventions of the embedding.
  \<^item> Python floats are modelled as \<^typ>\<open>real\<close>: comparisons and arithmetic are exact, and
    there is neither NaN nor infinity. Python's unbounded integers are \<^typ>\<open>int\<close>.
  \<^item> A Python exception is a value of \<open>py_error\<close>; an operation that can raise returns
    \<open>py_error + 'a\<close>, with \<open>Inl\<close> the exception.
  \<^item> An attribute that the settings file can overwrite holds a dynamically typed value
    (\<open>pyval\<close>), since \<^verbatim>\<open>config.get\<close> stores whatever the document holds.
  \<^item> The clock (\<^verbatim>\<open>time.time()\<close>), the moisture sensor and the pump are collaborators
    outside the script: each clock reading is an argument, the sensor is a record of the
    attributes the script reads, and a pump dose or a log line is an event in the list
    that an operation returns.
\<close>

subsection \<open>Python values\<close>

text \<open>The exceptions that the modelled code can raise, and the values that a settings
  document can hold: null, booleans, integers, floats, strings, sequences and
  mappings.\<close>

datatype py_error = TypeError | ValueError | IndexError | ZeroDivisionError

datatype pyval =
    PNone
  | PBool bool
  | PInt int
  | PFloat real
  | PStr string
  | PList "pyval list"
  | PDict "(pyval \<times> pyval) list"

text \<open>Truth value of an object, as \<^verbatim>\<open>not x\<close> and \<^verbatim>\<open>if x\<close> test it.\<close>

fun truthy :: "pyval \<Rightarrow> bool" where
  "truthy PNone = False"
| "truthy (PBool b) = b"
| "truthy (PInt i) = (i \<noteq> 0)"
| "truthy (PFloat x) = (x \<noteq> 0)"
| "truthy (PStr s) = (s \<noteq> [])"
| "truthy (PList xs) = (xs \<noteq> [])"
| "truthy (PDict kvs) = (kvs \<noteq> [])"

text \<open>The number an object stands for in a comparison with a float; \<^verbatim>\<open>bool\<close> is a
  subclass of \<^verbatim>\<open>int\<close>. Every other object has none.\<close>

fun num_of :: "pyval \<Rightarrow> real option" where
  "num_of (PBool b) = Some (if b then 1 else 0)"
| "num_of (PInt i) = Some (of_int i)"
| "num_of (PFloat x) = Some x"
| "num_of PNone = None"
| "num_of (PStr s) = None"
| "num_of (PList xs) = None"
| "num_of (PDict kvs) = None"

text \<open>\<^verbatim>\<open>x < v\<close> and \<^verbatim>\<open>x > v\<close> for a float \<open>x\<close>: a \<^verbatim>\<open>TypeError\<close> when \<open>v\<close> is not a number.\<close>

definition py_lt :: "real \<Rightarrow> pyval \<Rightarrow> py_error + bool" where
  "py_lt x v = (case num_of v of None \<Rightarrow> Inl TypeError | Some y \<Rightarrow> Inr (x < y))"

definition py_gt :: "real \<Rightarrow> pyval \<Rightarrow> py_error + bool" where
  "py_gt x v = (case num_of v of None \<Rightarrow> Inl TypeError | Some y \<Rightarrow> Inr (x > y))"

text \<open>\<^verbatim>\<open>"{:.2f}".format(v)\<close>: the number that is printed, or the exception: a string
  refuses the format code with a \<^verbatim>\<open>ValueError\<close>; \<^verbatim>\<open>None\<close>, a list and a dictionary
  refuse any format string with a \<^verbatim>\<open>TypeError\<close>.\<close>

fun format_2f :: "pyval \<Rightarrow> py_error + real" where
  "format_2f (PBool b) = Inr (if b then 1 else 0)"
| "format_2f (PInt i) = Inr (of_int i)"
| "format_2f (PFloat x) = Inr x"
| "format_2f (PStr s) = Inl ValueError"
| "format_2f PNone = Inl TypeError"
| "format_2f (PList xs) = Inl TypeError"
| "format_2f (PDict kvs) = Inl TypeError"

text \<open>List indexing \<^verbatim>\<open>xs[i]\<close>: a negative index counts from the end, an index out of
  range raises \<^verbatim>\<open>IndexError\<close>.\<close>

definition py_index :: "'a list \<Rightarrow> int \<Rightarrow> py_error + 'a" where
  "py_index xs i =
     (let n = int (length xs); j = (if i < 0 then i + n else i)
      in if 0 \<le> j \<and> j < n then Inr (xs ! nat j) else Inl IndexError)"

text \<open>\<^verbatim>\<open>int(x)\<close> of a float: truncation towards zero.\<close>

definition py_int :: "real \<Rightarrow> int" where
  "py_int x = (if 0 \<le> x then \<lfloor>x\<rfloor> else \<lceil>x\<rceil>)"

subsection \<open>Colour interpolation\<close>

type_synonym rgb = "int \<times> int \<times> int"

definition bar_colours :: "rgb list" where
  "bar_colours = [(192, 225, 254), (196, 255, 209), (255, 243, 192), (254, 192, 192)]"


text \<open>The components \<^verbatim>\<open>c[0]\<close>, \<^verbatim>\<open>c[1]\<close>, \<^verbatim>\<open>c[2]\<close> of a colour.\<close>

fun component :: "rgb \<Rightarrow> nat \<Rightarrow> int" where
  "component (r, g, b) i = (if i = 0 then r else if i = 1 then g else b)"

text \<open>One element of the list comprehension:
  \<^verbatim>\<open>int(((r[b][i] - r[a][i]) * blend) + r[a][i])\<close>.\<close>

definition blend_component :: "rgb \<Rightarrow> rgb \<Rightarrow> real \<Rightarrow> nat \<Rightarrow> int" where
  "blend_component ca cb blend i =
     py_int (of_int (component cb i - component ca i) * blend + of_int (component ca i))"

text \<open>\<^verbatim>\<open>Channel.indicator_color(value, r=None)\<close>. The palette \<open>r\<close> defaults to
  \<open>bar_colours\<close>. In the comprehension \<^verbatim>\<open>r[b]\<close> is read before \<^verbatim>\<open>r[a]\<close>.\<close>

definition indicator_color :: "real \<Rightarrow> rgb list option \<Rightarrow> py_error + rgb" where
  "indicator_color value0 r0 =
     (let value = 1 - value0;
          r = (case r0 of None \<Rightarrow> bar_colours | Some p \<Rightarrow> p)
      in if value = 1 then py_index r (- 1)
         else if value = 0 then py_index r 0
         else
           let value = value * of_int (int (length r) - 1);
               a = \<lfloor>value\<rfloor>;
               b = a + 1;
               blend = value - of_int a
           in case py_index r b of
                Inl e \<Rightarrow> Inl e
              | Inr cb \<Rightarrow>
                  (case py_index r a of
                     Inl e \<Rightarrow> Inl e
                   | Inr ca \<Rightarrow>
                       Inr (blend_component ca cb blend 0,
                            blend_component ca cb blend 1,
                            blend_component ca cb blend 2)))"

subsection \<open>Channels\<close>

text \<open>The attributes of the moisture sensor that the script reads
  (\<^verbatim>\<open>self.sensor.saturation\<close>, \<^verbatim>\<open>.active\<close>, \<^verbatim>\<open>.history\<close>). The sensor driver sets
  them; the script never writes them.\<close>

record Moisture =
  saturation :: real
  active :: bool
  history :: "real list"

text \<open>The attributes of a \<^verbatim>\<open>Channel\<close> object. The nine attributes that
  \<^verbatim>\<open>update_from_yml\<close> assigns hold whatever the settings document holds.
  \<^verbatim>\<open>last_dose\<close> is always a clock reading and \<^verbatim>\<open>alarm\<close> always a \<^verbatim>\<open>bool\<close>. The
  title, the icon and the pump handle are fixed at construction and are left out.\<close>

record Channel =
  channel :: int
  sensor :: Moisture
  water_level :: pyval
  alarm_level :: pyval
  auto_water :: pyval
  pump_speed :: pyval
  pump_time :: pyval
  watering_delay :: pyval
  wet_point :: pyval
  dry_point :: pyval
  last_dose :: real
  enabled :: pyval
  alarm :: bool

text \<open>What a call does to its collaborators: \<^verbatim>\<open>self.pump.dose(speed, time,
  blocking=False)\<close> with its two arguments, \<^verbatim>\<open>logging.info\<close> with the channel and the
  two formatted numbers, \<^verbatim>\<open>logging.warning\<close> with the channel and the two
  percentages.\<close>

datatype event =
    Dose pyval pyval
  | Log_info int real real
  | Log_warning int real real

text \<open>\<^verbatim>\<open>Channel.update_from_yml(config)\<close>, with \<^verbatim>\<open>config\<close> either \<^verbatim>\<open>None\<close> or a
  dictionary; \<^verbatim>\<open>config.get(k, d)\<close> is the value stored under \<open>k\<close>, or \<open>d\<close>. The
  nine lookups are by string, so the dictionary is a map on strings.\<close>

definition dict_get :: "(string \<rightharpoonup> pyval) \<Rightarrow> string \<Rightarrow> pyval \<Rightarrow> pyval" where
  "dict_get config k d = (case config k of None \<Rightarrow> d | Some v \<Rightarrow> v)"

definition update_from_yml :: "(string \<rightharpoonup> pyval) option \<Rightarrow> Channel \<Rightarrow> Channel" where
  "update_from_yml config self =
     (case config of
        None \<Rightarrow> self
      | Some cfg \<Rightarrow>
          self\<lparr>pump_speed := dict_get cfg ''pump_speed'' (pump_speed self),
               pump_time := dict_get cfg ''pump_time'' (pump_time self),
               alarm_level := dict_get cfg ''alarm_level'' (alarm_level self),
               water_level := dict_get cfg ''water_level'' (water_level self),
               watering_delay := dict_get cfg ''watering_delay'' (watering_delay self),
               auto_water := dict_get cfg ''auto_water'' (auto_water self),
               enabled := dict_get cfg ''enabled'' (enabled self),
               wet_point := dict_get cfg ''wet_point'' (wet_point self),
               dry_point := dict_get cfg ''dry_point'' (dry_point self)\<rparr>)"

text \<open>\<^verbatim>\<open>Channel.water()\<close>. The clock is read twice: \<open>t_check\<close> in the comparison and,
  after the dose, \<open>t_stamp\<close> for \<^verbatim>\<open>last_dose\<close>. The result is the returned flag or the
  exception, the channel as the call leaves it, and the events of the call.\<close>

definition water :: "real \<Rightarrow> real \<Rightarrow> Channel \<Rightarrow> (py_error + bool) \<times> Channel \<times> event list" where
  "water t_check t_stamp self =
     (if \<not> truthy (auto_water self) then (Inr False, self, [])
      else case py_gt (t_check - last_dose self) (watering_delay self) of
             Inl e \<Rightarrow> (Inl e, self, [])
           | Inr True \<Rightarrow>
               (Inr True, self\<lparr>last_dose := t_stamp\<rparr>,
                [Dose (pump_speed self) (pump_time self)])
           | Inr False \<Rightarrow> (Inr False, self, []))"

text \<open>The message of \<^verbatim>\<open>logging.info\<close> in \<^verbatim>\<open>update\<close>: both numbers are formatted
  with \<^verbatim>\<open>{:.2f}\<close>, the pump speed first.\<close>

definition watering_message :: "Channel \<Rightarrow> py_error + event" where
  "watering_message self =
     (case format_2f (pump_speed self) of
        Inl e \<Rightarrow> Inl e
      | Inr rate \<Rightarrow>
          (case format_2f (pump_time self) of
             Inl e \<Rightarrow> Inl e
           | Inr secs \<Rightarrow> Inr (Log_info (channel self) rate secs)))"

text \<open>\<^verbatim>\<open>Channel.update()\<close>. The result is the exception that leaves the call, if any,
  the channel as the call leaves it, and the events of the call in order. The alarm
  test is inside the branch \<^verbatim>\<open>sat < self.water_level\<close>. The comparison
  \<^verbatim>\<open>sat < self.alarm_level\<close> raises \<^verbatim>\<open>TypeError\<close> when the level is not a number
  (as \<open>py_lt\<close> does); when it is the number \<open>level\<close>, the warning prints
  \<^verbatim>\<open>sat * 100\<close> and \<^verbatim>\<open>self.alarm_level * 100\<close>, which cannot raise.\<close>

definition update :: "real \<Rightarrow> real \<Rightarrow> Channel \<Rightarrow> py_error option \<times> Channel \<times> event list" where
  "update t_check t_stamp self =
     (if \<not> truthy (enabled self) then (None, self, [])
      else
        let sat = saturation (sensor self) in
        case py_lt sat (water_level self) of
          Inl e \<Rightarrow> (Some e, self, [])
        | Inr False \<Rightarrow> (None, self, [])
        | Inr True \<Rightarrow>
            (case water t_check t_stamp self of
               (Inl e, self1, ev1) \<Rightarrow> (Some e, self1, ev1)
             | (Inr watered, self1, ev1) \<Rightarrow>
                 (case (if watered then map_sum id (\<lambda>m. [m]) (watering_message self1)
                        else Inr []) of
                    Inl e \<Rightarrow> (Some e, self1, ev1)
                  | Inr ev2 \<Rightarrow>
                      (case num_of (alarm_level self1) of
                         None \<Rightarrow> (Some TypeError, self1, ev1 @ ev2)
                       | Some level \<Rightarrow>
                           if sat < level \<and> \<not> alarm self1
                           then (None, self1\<lparr>alarm := True\<rparr>,
                                 ev1 @ ev2 @
                                 [Log_warning (channel self1) (sat * 100) (level * 100)])
                           else (None, self1, ev1 @ ev2)))))"

text \<open>\<^verbatim>\<open>Channel.__init__\<close> with the default arguments, as the script calls it
  (\<^verbatim>\<open>Channel(n, n, n)\<close>): \<open>now\<close> is the clock reading stored in \<^verbatim>\<open>last_dose\<close>, \<open>sn\<close>
  the state of the sensor. The two calibration calls go to the sensor driver.\<close>

definition Channel_init :: "int \<Rightarrow> real \<Rightarrow> Moisture \<Rightarrow> Channel" where
  "Channel_init display_channel now sn =
     \<lparr>channel = display_channel,
      sensor = sn,
      water_level = PFloat (1 / 2),
      alarm_level = PFloat (1 / 2),
      auto_water = PBool False,
      pump_speed = PFloat (7 / 10),
      pump_time = PFloat (7 / 10),
      watering_delay = PInt 30,
      wet_point = PFloat (7 / 10),
      dry_point = PFloat (267 / 10),
      last_dose = now,
      enabled = PBool False,
      alarm = False\<rparr>"

text \<open>A run of calls of \<^verbatim>\<open>update\<close> on one channel. Before each call the sensor shows
  a new saturation and the clock gives the two readings of that call; the channel
  keeps what a call did to it, also when the call raised.\<close>

fun ticks :: "Channel \<Rightarrow> (real \<times> real \<times> real) list \<Rightarrow> Channel \<times> event list" where
  "ticks self [] = (self, [])"
| "ticks self ((sat, t_check, t_stamp) # rs) =
     (let res = update t_check t_stamp (self\<lparr>sensor := (sensor self)\<lparr>saturation := sat\<rparr>\<rparr>);
          rest = ticks (fst (snd res)) rs
      in (fst rest, snd (snd res) @ snd rest))"

text \<open>The doses among the events.\<close>

fun doses :: "event list \<Rightarrow> (pyval \<times> pyval) list" where
  "doses [] = []"
| "doses (Dose s t # evs) = (s, t) # doses evs"
| "doses (_ # evs) = doses evs"

subsection \<open>Navigation\<close>

definition BUTTONS :: "int list" where
  "BUTTONS = [5, 6, 16, 24]"

definition LABELS :: "string list" where
  "LABELS = [''A'', ''B'', ''X'', ''Y'']"

text \<open>The view objects, with the index of their channel in \<^verbatim>\<open>channels\<close>. An entry of
  \<^verbatim>\<open>views\<close> is one view or a tuple of views.\<close>

datatype view = MainView | DetailView nat | EditView nat

datatype view_entry = Single view | Tuple "view list"

definition views :: "view_entry list" where
  "views =
     [Single MainView,
      Tuple [DetailView 0, EditView 0],
      Tuple [DetailView 1, EditView 1],
      Tuple [DetailView 2, EditView 2]]"

text \<open>The lines that \<^verbatim>\<open>handle_button\<close> prints.\<close>

datatype console_line = Switched_to_view int | Switched_to_subview int

text \<open>The globals that \<^verbatim>\<open>handle_button\<close> reads and writes. The global \<^verbatim>\<open>alarm\<close> does
  not exist until button B assigns it.\<close>

record globals =
  current_view :: int
  current_subview :: int
  alarm_global :: "bool option"
  channels :: "Channel list"
  console :: "console_line list"

text \<open>\<^verbatim>\<open>xs.index(x)\<close>: the first position of \<open>x\<close>, or \<^verbatim>\<open>ValueError\<close>.\<close>

fun list_index :: "'a list \<Rightarrow> 'a \<Rightarrow> py_error + int" where
  "list_index [] x = Inl ValueError"
| "list_index (y # ys) x =
     (if y = x then Inr 0 else map_sum id (\<lambda>i. i + 1) (list_index ys x))"

text \<open>\<^verbatim>\<open>handle_button(pin)\<close>. The four tests of \<^verbatim>\<open>label\<close> run one after the other,
  each on the globals the one before left. The modulus \<^verbatim>\<open>% len(view)\<close> raises
  \<^verbatim>\<open>ZeroDivisionError\<close> for an empty tuple.\<close>

definition select_view :: "globals \<Rightarrow> globals" where
  "select_view g =
     (if current_subview g = 0
      then let v = (current_view g + 1) mod int (length views)
           in g\<lparr>current_view := v, current_subview := 0,
                console := console g @ [Switched_to_view v]\<rparr>
      else g)"

definition cancel_alarm :: "globals \<Rightarrow> globals" where
  "cancel_alarm g =
     g\<lparr>alarm_global := Some False,
       channels := map (\<lambda>c. c\<lparr>alarm := False\<rparr>) (channels g)\<rparr>"

definition toggle_subview :: "globals \<Rightarrow> py_error + globals" where
  "toggle_subview g =
     (case py_index views (current_view g) of
        Inl e \<Rightarrow> Inl e
      | Inr (Single v) \<Rightarrow> Inr g
      | Inr (Tuple vs) \<Rightarrow>
          if vs = [] then Inl ZeroDivisionError
          else let sv = (current_subview g + 1) mod int (length vs)
               in Inr (g\<lparr>current_subview := sv,
                         console := console g @ [Switched_to_subview sv]\<rparr>))"

definition handle_button :: "int \<Rightarrow> globals \<Rightarrow> py_error + globals" where
  "handle_button pin g =
     (case list_index BUTTONS pin of
        Inl e \<Rightarrow> Inl e
      | Inr index \<Rightarrow>
          (case py_index LABELS index of
             Inl e \<Rightarrow> Inl e
           | Inr label \<Rightarrow>
               let g1 = (if label = ''A'' then select_view g else g);
                   g2 = (if label = ''B'' then cancel_alarm g1 else g1)
               in if label = ''X'' then toggle_subview g2 else Inr g2))"

text \<open>The globals when the script starts, for the list of channels it has built.\<close>

definition initial_globals :: "Channel list \<Rightarrow> globals" where
  "initial_globals chs =
     \<lparr>current_view = 0, current_subview = 0, alarm_global = None,
      channels = chs, console = []\<rparr>"

text \<open>A button press as the running script sees it: an exception of the handler is
  lost in the callback, and the handler raises only before it writes a global, so the
  globals are then as before.\<close>

definition press :: "globals \<Rightarrow> int \<Rightarrow> globals" where
  "press g pin = (case handle_button pin g of Inl e \<Rightarrow> g | Inr g' \<Rightarrow> g')"

definition presses :: "globals \<Rightarrow> int list \<Rightarrow> globals" where
  "presses g pins = foldl press g pins"

text \<open>The number of sub-views of an entry, and the bounds on the two indices.\<close>

fun subview_count :: "view_entry \<Rightarrow> nat" where
  "subview_count (Single v) = 1"
| "subview_count (Tuple vs) = length vs"

definition nav_in_bounds :: "globals \<Rightarrow> bool" where
  "nav_in_bounds g =
     (0 \<le> current_view g \<and> current_view g < int (length views) \<and>
      0 \<le> current_subview g \<and>
      current_subview g < int (subview_count (views ! nat (current_view g))))"

subsection \<open>Results of a call, the specification's interpolation, examples\<close>

text \<open>The channel and the events in the result of \<open>water\<close> or \<open>update\<close>.\<close>

abbreviation chan_of :: "'a \<times> Channel \<times> event list \<Rightarrow> Channel" where
  "chan_of res \<equiv> fst (snd res)"
abbreviation events_of :: "'a \<times> Channel \<times> event list \<Rightarrow> event list" where
  "events_of res \<equiv> snd (snd res)"



text \<open>The keys that \<open>update_from_yml\<close> looks up, in its order, and the attribute of a
  channel that each of them names.\<close>

definition recognized_keys :: "string list" where
  "recognized_keys =
     [''pump_speed'', ''pump_time'', ''alarm_level'', ''water_level'', ''watering_delay'',
      ''auto_water'', ''enabled'', ''wet_point'', ''dry_point'']"

definition attribute :: "string \<Rightarrow> Channel \<Rightarrow> pyval" where
  "attribute k self =
     (if k = ''pump_speed'' then pump_speed self
      else if k = ''pump_time'' then pump_time self
      else if k = ''alarm_level'' then alarm_level self
      else if k = ''water_level'' then water_level self
      else if k = ''watering_delay'' then watering_delay self
      else if k = ''auto_water'' then auto_water self
      else if k = ''enabled'' then enabled self
      else if k = ''wet_point'' then wet_point self
      else if k = ''dry_point'' then dry_point self
      else PNone)"

text \<open>Three channels for the examples: the scenario of section 8 of the specification
  (water level 0.5, alarm level 0.3, delay 30, saturation 0.2), a channel whose alarm is up
  while its soil is wet, and a channel whose alarm level lies above its water level.\<close>

definition scenario_channel :: Channel where
  "scenario_channel =
     (Channel_init 1 0 \<lparr>saturation = 1 / 5, active = True, history = []\<rparr>)
       \<lparr>alarm_level := PFloat (3 / 10), auto_water := PBool True, enabled := PBool True\<rparr>"

definition alarmed_channel :: Channel where
  "alarmed_channel =
     (Channel_init 2 0 \<lparr>saturation = 9 / 10, active = True, history = []\<rparr>)
       \<lparr>alarm_level := PFloat (3 / 10), auto_water := PBool True, enabled := PBool True,
        alarm := True\<rparr>"

definition late_alarm_channel :: Channel where
  "late_alarm_channel =
     (Channel_init 3 0 \<lparr>saturation = 2 / 5, active = True, history = []\<rparr>)
       \<lparr>water_level := PFloat (3 / 10), enabled := PBool True\<rparr>"

text \<open>A settings mapping for the examples, with one recognized key and one unknown key,
  and the globals of a script whose only channel is the alarmed one.\<close>

definition example_config :: "string \<rightharpoonup> pyval" where
  "example_config = [''enabled'' \<mapsto> PBool True, ''colour'' \<mapsto> PStr ''red'']"

definition example_globals :: globals where
  "example_globals = initial_globals [alarmed_channel]"

section \<open>Properties\<close>

subsection \<open>Auxiliary facts\<close>

lemma doses_append: "doses (xs @ ys) = doses xs @ doses ys"
  by (induction xs rule: doses.induct) simp_all

lemma update_alarm_kept: "alarm self \<Longrightarrow> alarm (chan_of (update t1 t2 self))"
  by (auto simp: update_def water_def py_lt_def py_gt_def Let_def
      split: option.splits sum.splits bool.splits prod.splits if_splits)

lemma update_frame:
  "chan_of (update t1 t2 self) \<lparr>alarm := x, last_dose := y\<rparr> = self\<lparr>alarm := x, last_dose := y\<rparr>"
  by (auto simp: update_def water_def py_lt_def py_gt_def Let_def
      split: option.splits sum.splits bool.splits prod.splits if_splits)

lemma update_watering_delay: "watering_delay (chan_of (update t1 t2 self)) = watering_delay self"
  by (auto simp: update_def water_def py_lt_def py_gt_def Let_def
      split: option.splits sum.splits bool.splits prod.splits if_splits)

lemma update_within_delay:
  assumes "num_of (watering_delay self) = Some d" "t1 - last_dose self \<le> d"
  shows "doses (events_of (update t1 t2 self)) = [] \<and>
         last_dose (chan_of (update t1 t2 self)) = last_dose self"
  using assms
  by (auto simp: update_def water_def py_lt_def py_gt_def Let_def watering_message_def doses_append
      split: option.splits sum.splits bool.splits prod.splits if_splits)

lemma update_fires:
  assumes "truthy (enabled self)" "truthy (auto_water self)"
    "num_of (water_level self) = Some wl" "saturation (sensor self) < wl"
    "num_of (watering_delay self) = Some d" "t1 - last_dose self > d"
  shows "doses (events_of (update t1 t2 self)) = [(pump_speed self, pump_time self)] \<and>
         last_dose (chan_of (update t1 t2 self)) = t2"
  using assms
  by (auto simp: update_def water_def py_lt_def py_gt_def Let_def watering_message_def doses_append
      split: option.splits sum.splits bool.splits prod.splits if_splits)

lemma ticks_within_delay:
  "num_of (watering_delay self) = Some d \<Longrightarrow>
   \<forall>r \<in> set rs. fst (snd r) - last_dose self \<le> d \<Longrightarrow>
   doses (snd (ticks self rs)) = [] \<and> last_dose (fst (ticks self rs)) = last_dose self"
proof (induction rs arbitrary: self)
  case Nil
  then show ?case by simp
next
  case (Cons r rs)
  obtain sat t t' where r: "r = (sat, t, t')" by (cases r)
  let ?c = "self\<lparr>sensor := (sensor self)\<lparr>saturation := sat\<rparr>\<rparr>"
  let ?c1 = "chan_of (update t t' ?c)"
  have wd: "num_of (watering_delay ?c) = Some d" and ld: "t - last_dose ?c \<le> d"
    using Cons.prems r by simp_all
  have step: "doses (events_of (update t t' ?c)) = []" "last_dose ?c1 = last_dose self"
    using update_within_delay [OF wd ld, of t'] by simp_all
  have wd1: "num_of (watering_delay ?c1) = Some d"
    using wd by (simp add: update_watering_delay)
  have rest: "\<forall>r \<in> set rs. fst (snd r) - last_dose ?c1 \<le> d"
    using Cons.prems(2) step(2) by simp
  have ih: "doses (snd (ticks ?c1 rs)) = []" "last_dose (fst (ticks ?c1 rs)) = last_dose ?c1"
    using Cons.IH [OF wd1 rest] by simp_all
  show ?case
    using step ih by (simp add: r doses_append Let_def)
qed

lemma ticks_alarm_kept: "alarm self \<Longrightarrow> alarm (fst (ticks self rs))"
proof (induction rs arbitrary: self)
  case Nil
  then show ?case by simp
next
  case (Cons r rs)
  obtain sat t t' where r: "r = (sat, t, t')" by (cases r)
  let ?c = "self\<lparr>sensor := (sensor self)\<lparr>saturation := sat\<rparr>\<rparr>"
  have "alarm (chan_of (update t t' ?c))"
    using Cons.prems by (intro update_alarm_kept) simp
  then have "alarm (fst (ticks (chan_of (update t t' ?c)) rs))"
    by (rule Cons.IH)
  then show ?case
    by (simp add: r Let_def)
qed


lemmas channel_defs = Channel_init_def update_def water_def py_lt_def py_gt_def
  watering_message_def

lemma handle_button_channels:
  "handle_button pin g = Inr g' \<Longrightarrow>
   channels g' = (if pin = 6 then map (\<lambda>c. c\<lparr>alarm := False\<rparr>) (channels g) else channels g)"
  by (auto simp: handle_button_def BUTTONS_def LABELS_def py_index_def select_view_def
      cancel_alarm_def toggle_subview_def Let_def split: sum.splits if_splits view_entry.splits)

lemma handle_button_B:
  "handle_button 6 g = Inr (cancel_alarm g)"
  by (simp add: handle_button_def BUTTONS_def LABELS_def py_index_def)



lemma handle_button_pins:
  "handle_button pin g =
     (if pin = 5 then Inr (select_view g)
      else if pin = 6 then Inr (cancel_alarm g)
      else if pin = 16 then toggle_subview g
      else if pin = 24 then Inr g
      else Inl ValueError)"
  by (simp add: handle_button_def BUTTONS_def LABELS_def py_index_def)

lemma in_bounds_cases:
  "nav_in_bounds g \<longleftrightarrow>
     (current_view g = 0 \<and> current_subview g = 0) \<or>
     (current_view g \<in> {1, 2, 3} \<and> current_subview g \<in> {0, 1})"
proof (cases "0 \<le> current_view g \<and> current_view g < 4")
  case True
  then have "current_view g = 0 \<or> current_view g = 1 \<or> current_view g = 2 \<or> current_view g = 3"
    by auto
  then show ?thesis
    unfolding nav_in_bounds_def views_def by (elim disjE) auto
next
  case False
  then show ?thesis
    unfolding nav_in_bounds_def views_def by auto
qed

lemma select_view_in_bounds: "nav_in_bounds g \<Longrightarrow> nav_in_bounds (select_view g)"
  unfolding in_bounds_cases
  by (auto simp: select_view_def views_def Let_def)

lemma cancel_alarm_in_bounds: "nav_in_bounds g \<Longrightarrow> nav_in_bounds (cancel_alarm g)"
  by (simp add: nav_in_bounds_def cancel_alarm_def)

lemma toggle_subview_in_bounds:
  "nav_in_bounds g \<Longrightarrow> \<exists>g'. toggle_subview g = Inr g' \<and> nav_in_bounds g'"
  unfolding in_bounds_cases
  by (auto simp: toggle_subview_def views_def py_index_def Let_def)

lemma handled_in_bounds:
  "nav_in_bounds g \<Longrightarrow> pin \<in> set BUTTONS \<Longrightarrow>
   \<exists>g'. handle_button pin g = Inr g' \<and> nav_in_bounds g'"
  using select_view_in_bounds [of g] cancel_alarm_in_bounds [of g] toggle_subview_in_bounds [of g]
  by (auto simp: handle_button_pins BUTTONS_def)

lemma press_in_bounds: "nav_in_bounds g \<Longrightarrow> nav_in_bounds (press g pin)"
proof (cases "pin \<in> set BUTTONS")
  case True
  assume "nav_in_bounds g"
  from handled_in_bounds [OF this True] show ?thesis
    by (auto simp: press_def)
next
  case False
  assume "nav_in_bounds g"
  moreover have "handle_button pin g = Inl ValueError"
    using False by (simp add: handle_button_pins BUTTONS_def)
  ultimately show ?thesis
    by (simp add: press_def)
qed

lemma presses_in_bounds: "nav_in_bounds g \<Longrightarrow> nav_in_bounds (presses g pins)"
  unfolding presses_def
  by (induction pins arbitrary: g) (simp_all add: press_in_bounds)

lemma initial_in_bounds: "nav_in_bounds (initial_globals chs)"
  by (simp add: nav_in_bounds_def initial_globals_def views_def)

subsection \<open>The alarm latch\<close>

text \<open>Claim C1. Once the \<open>alarm\<close> attribute of a channel is true, no call of \<open>update\<close>
  clears it, whatever the saturation, the clock and the configuration: not one call and
  not any run of calls. Loading the settings keeps it as well. A button other than B
  leaves every channel as it is, and button B is always handled and leaves no channel
  alarmed. So \<open>update\<close> can only raise the flag, and only the acknowledge button
  lowers it.\<close>

theorem alarm_latch:
  "(alarm self \<longrightarrow> alarm (chan_of (update t_check t_stamp self))) \<and>
   (alarm self \<longrightarrow> alarm (fst (ticks self rs))) \<and>
   (alarm self \<longrightarrow> alarm (update_from_yml config self)) \<and>
   (pin \<noteq> 6 \<longrightarrow> handle_button pin g = Inr g' \<longrightarrow> channels g' = channels g) \<and>
   (\<exists>g''. handle_button 6 g = Inr g'' \<and> (\<forall>c \<in> set (channels g''). \<not> alarm c))"
proof -
  have "alarm self \<longrightarrow> alarm (update_from_yml config self)"
    by (simp add: update_from_yml_def split: option.splits)
  moreover have "pin \<noteq> 6 \<longrightarrow> handle_button pin g = Inr g' \<longrightarrow> channels g' = channels g"
    using handle_button_channels [of pin g g'] by simp
  moreover have "\<forall>c \<in> set (channels (cancel_alarm g)). \<not> alarm c"
    by (auto simp: cancel_alarm_def)
  ultimately show ?thesis
    using update_alarm_kept [of self t_check t_stamp] ticks_alarm_kept [of self rs]
      handle_button_B [of g]
    by blast
qed

text \<open>Claim C1 at the alarmed channel, whose saturation 0.9 is above its alarm level
  0.3: two ticks keep the alarm, button A keeps the channel, button B clears it.\<close>

theorem alarm_latch_witness:
  "alarm alarmed_channel \<and>
   saturation (sensor alarmed_channel) > 3 / 10 \<and>
   alarm (chan_of (update 100 101 alarmed_channel)) \<and>
   alarm (fst (ticks alarmed_channel [(9 / 10, 100, 101), (1, 200, 201)])) \<and>
   handle_button 5 (initial_globals [alarmed_channel])
     = Inr (select_view (initial_globals [alarmed_channel])) \<and>
   channels (select_view (initial_globals [alarmed_channel])) = [alarmed_channel] \<and>
   (\<exists>g''. handle_button 6 (initial_globals [alarmed_channel]) = Inr g'' \<and>
      (\<forall>c \<in> set (channels g''). \<not> alarm c))"
proof -
  have a: "alarm alarmed_channel" "saturation (sensor alarmed_channel) > 3 / 10"
    by (simp_all add: alarmed_channel_def Channel_init_def)
  have h: "handle_button 5 (initial_globals [alarmed_channel])
     = Inr (select_view (initial_globals [alarmed_channel]))"
    by (simp add: handle_button_def BUTTONS_def LABELS_def py_index_def)
  show ?thesis
    using a h
      alarm_latch [of alarmed_channel 100 101 "[(9 / 10, 100, 101), (1, 200, 201)]" None 5
        "initial_globals [alarmed_channel]" "select_view (initial_globals [alarmed_channel])"]
    by (simp add: initial_globals_def)
qed

subsection \<open>The watering cooldown\<close>

text \<open>Claim C2. For an enabled channel with automatic watering whose saturation is
  below its water level, a call of \<open>update\<close> doses the pump if and only if the clock
  reading minus \<open>last_dose\<close> exceeds the watering delay. A dose is one dose of
  (\<open>pump_speed\<close>, \<open>pump_time\<close>) and stores the second clock reading in \<open>last_dose\<close>;
  without a dose \<open>last_dose\<close> stays. Hence after a dose no later call whose clock
  reading is within the delay of that stamp doses again, whatever the saturations.\<close>

theorem watering_cooldown:
  assumes "truthy (enabled self)" and "truthy (auto_water self)"
    and "num_of (water_level self) = Some wl" and "saturation (sensor self) < wl"
    and "num_of (watering_delay self) = Some d"
  shows "(doses (events_of (update t_check t_stamp self)) \<noteq> [] \<longleftrightarrow> t_check - last_dose self > d) \<and>
    (t_check - last_dose self > d \<longrightarrow>
       doses (events_of (update t_check t_stamp self)) = [(pump_speed self, pump_time self)] \<and>
       last_dose (chan_of (update t_check t_stamp self)) = t_stamp) \<and>
    (\<not> t_check - last_dose self > d \<longrightarrow>
       last_dose (chan_of (update t_check t_stamp self)) = last_dose self) \<and>
    (t_check - last_dose self > d \<longrightarrow> (\<forall>r \<in> set rs. fst (snd r) - t_stamp \<le> d) \<longrightarrow>
       doses (snd (ticks (chan_of (update t_check t_stamp self)) rs)) = [])"
proof (cases "t_check - last_dose self > d")
  case True
  let ?c = "chan_of (update t_check t_stamp self)"
  have fired: "doses (events_of (update t_check t_stamp self)) = [(pump_speed self, pump_time self)]"
    "last_dose ?c = t_stamp"
    using update_fires [OF assms True, of t_stamp] by simp_all
  have wd: "num_of (watering_delay ?c) = Some d"
    using assms(5) by (simp add: update_watering_delay)
  have "doses (snd (ticks ?c rs)) = []" if "\<forall>r \<in> set rs. fst (snd r) - t_stamp \<le> d"
    using ticks_within_delay [OF wd, of rs] that fired(2) by simp
  then show ?thesis
    using True fired by simp
next
  case False
  then have "t_check - last_dose self \<le> d" by simp
  from update_within_delay [OF assms(5) this, of t_stamp] False show ?thesis
    by simp
qed

text \<open>Claim C2 at the scenario channel, last dosed at time 0 with delay 30: the call at
  time 40 doses and stamps 41, the calls at 50 and at 71 do not dose.\<close>

theorem watering_cooldown_witness:
  "doses (events_of (update 40 41 scenario_channel)) = [(PFloat (7 / 10), PFloat (7 / 10))] \<and>
   last_dose (chan_of (update 40 41 scenario_channel)) = 41 \<and>
   doses (snd (ticks (chan_of (update 40 41 scenario_channel))
      [(1 / 5, 50, 51), (1 / 5, 71, 72)])) = []"
proof -
  have h: "truthy (enabled scenario_channel)" "truthy (auto_water scenario_channel)"
    "num_of (water_level scenario_channel) = Some (1 / 2)"
    "saturation (sensor scenario_channel) < 1 / 2"
    "num_of (watering_delay scenario_channel) = Some 30"
    "pump_speed scenario_channel = PFloat (7 / 10)"
    "pump_time scenario_channel = PFloat (7 / 10)"
    "last_dose scenario_channel = 0"
    by (simp_all add: scenario_channel_def Channel_init_def)
  show ?thesis
    using watering_cooldown [OF h(1-5), of 40 41 "[(1 / 5, 50, 51), (1 / 5, 71, 72)]"]
    by (simp add: h)
qed

subsection \<open>A disabled channel\<close>

text \<open>Claim C3. When \<open>enabled\<close> is false (or anything Python counts as false), a call of
  \<open>update\<close> returns without an exception, leaves the whole channel as it was and emits
  no event, so no dose, for every saturation and every clock reading.\<close>

theorem update_disabled_noop:
  "\<not> truthy (enabled self) \<Longrightarrow> update t_check t_stamp self = (None, self, [])"
  by (simp add: update_def)

text \<open>Claim C3 at a freshly constructed channel, which is disabled, with dry soil.\<close>

theorem update_disabled_noop_witness:
  "enabled (Channel_init 1 0 \<lparr>saturation = 0, active = True, history = []\<rparr>) = PBool False \<and>
   update 100 101 (Channel_init 1 0 \<lparr>saturation = 0, active = True, history = []\<rparr>)
     = (None, Channel_init 1 0 \<lparr>saturation = 0, active = True, history = []\<rparr>, [])"
proof -
  have e: "enabled (Channel_init 1 0 \<lparr>saturation = 0, active = True, history = []\<rparr>) = PBool False"
    by (simp add: Channel_init_def)
  then show ?thesis
    using update_disabled_noop [of "Channel_init 1 0 \<lparr>saturation = 0, active = True, history = []\<rparr>" 100 101]
    by simp
qed

subsection \<open>The alarm test sits inside the watering branch\<close>

text \<open>Claim C10. A call of \<open>update\<close> that raises the alarm happened on an enabled channel
  whose saturation was below its water level (and below its alarm level). In
  particular, when the saturation is at least the water level and still below the
  alarm level, the call does nothing at all: the alarm is not raised.\<close>

theorem alarm_gated_by_water_level:
  "(\<not> alarm self \<longrightarrow> alarm (chan_of (update t_check t_stamp self)) \<longrightarrow>
      truthy (enabled self) \<and>
      (\<exists>wl al. num_of (water_level self) = Some wl \<and> saturation (sensor self) < wl \<and>
         num_of (alarm_level self) = Some al \<and> saturation (sensor self) < al)) \<and>
   (truthy (enabled self) \<longrightarrow>
    num_of (water_level self) = Some wl \<longrightarrow> num_of (alarm_level self) = Some al \<longrightarrow>
    wl \<le> saturation (sensor self) \<longrightarrow> saturation (sensor self) < al \<longrightarrow>
      update t_check t_stamp self = (None, self, []))"
  by (auto simp: update_def water_def py_lt_def py_gt_def Let_def
      split: option.splits sum.splits bool.splits prod.splits if_splits)

text \<open>Claim C10 at the scenario channel, where the alarm is raised with the saturation
  0.2 below the water level 0.5, and at the channel with water level 0.3, alarm level 0.5
  and saturation 0.4, where nothing happens.\<close>

theorem alarm_gated_by_water_level_witness:
  "\<not> alarm scenario_channel \<and> alarm (chan_of (update 40 41 scenario_channel)) \<and>
   (\<exists>wl. num_of (water_level scenario_channel) = Some wl \<and>
      saturation (sensor scenario_channel) < wl) \<and>
   num_of (water_level late_alarm_channel) = Some (3 / 10) \<and>
   num_of (alarm_level late_alarm_channel) = Some (1 / 2) \<and>
   3 / 10 \<le> saturation (sensor late_alarm_channel) \<and>
   saturation (sensor late_alarm_channel) < 1 / 2 \<and>
   update 40 41 late_alarm_channel = (None, late_alarm_channel, [])"
proof -
  have s: "\<not> alarm scenario_channel" "alarm (chan_of (update 40 41 scenario_channel))"
    by (simp_all add: scenario_channel_def channel_defs)
  have l: "truthy (enabled late_alarm_channel)"
    "num_of (water_level late_alarm_channel) = Some (3 / 10)"
    "num_of (alarm_level late_alarm_channel) = Some (1 / 2)"
    "3 / 10 \<le> saturation (sensor late_alarm_channel)"
    "saturation (sensor late_alarm_channel) < 1 / 2"
    by (simp_all add: late_alarm_channel_def Channel_init_def)
  have below: "\<exists>wl. num_of (water_level scenario_channel) = Some wl \<and>
      saturation (sensor scenario_channel) < wl"
    using s alarm_gated_by_water_level [of scenario_channel 40 41] by blast
  have quiet: "update 40 41 late_alarm_channel = (None, late_alarm_channel, [])"
    using l alarm_gated_by_water_level [of late_alarm_channel 40 41 "3 / 10" "1 / 2"] by blast
  show ?thesis
    using s l below quiet by blast
qed

subsection \<open>Colours at the end points\<close>

text \<open>Claim C4 as stated fails: with the bar palette, the value 0 is not mapped to the
  first colour and the value 1 is not mapped to the last one.\<close>

theorem endpoints_counterexample:
  "indicator_color 0 (Some bar_colours) \<noteq> Inr (bar_colours ! 0) \<and>
   indicator_color 1 (Some bar_colours) \<noteq> Inr (last bar_colours)"
  by (simp add: indicator_color_def bar_colours_def py_index_def)

text \<open>Claim C4, amended. The value is inverted first, so for a palette of two or more
  colours the value 0 gives the last colour of the palette and the value 1 the first.\<close>

theorem indicator_color_endpoints:
  "2 \<le> length r \<Longrightarrow>
   indicator_color 0 (Some r) = Inr (last r) \<and> indicator_color 1 (Some r) = Inr (r ! 0)"
  by (cases r) (auto simp: indicator_color_def py_index_def last_conv_nth nat_diff_distrib)

text \<open>Claim C4, amended, at the bar palette: 0 gives the red, 1 the blue.\<close>

theorem indicator_color_endpoints_witness:
  "indicator_color 0 (Some bar_colours) = Inr (254, 192, 192) \<and>
   indicator_color 1 (Some bar_colours) = Inr (192, 225, 254)"
proof -
  have "2 \<le> length bar_colours" by (simp add: bar_colours_def)
  from indicator_color_endpoints [OF this] show ?thesis
    by (simp add: bar_colours_def)
qed

subsection \<open>Colours in the interior\<close>




subsection \<open>Navigation\<close>

text \<open>Claim C6. From the initial globals (both indices 0), after any sequence of button
  presses, on registered pins or not, \<open>current_view\<close> is at least 0 and below the number of
  views, and \<open>current_subview\<close> is at least 0 and below the number of sub-views of the
  current view (1 for a single view). In every such state each of the four buttons is
  handled without an exception and leaves the indices in bounds again.\<close>

theorem navigation_in_bounds:
  "nav_in_bounds (presses (initial_globals chs) pins) \<and>
   (\<forall>pin \<in> set BUTTONS.
      \<exists>g'. handle_button pin (presses (initial_globals chs) pins) = Inr g' \<and> nav_in_bounds g')"
  using presses_in_bounds [OF initial_in_bounds, of chs pins] handled_in_bounds
  by blast

text \<open>Claim C6 after eleven presses, the last on a pin that is no button: the indices
  are 1 and 1, and button X is handled from there.\<close>

theorem navigation_in_bounds_witness:
  "presses (initial_globals []) [5, 16, 16, 5, 5, 5, 5, 16, 6, 24, 7]
     = \<lparr>current_view = 1, current_subview = 1, alarm_global = Some False, channels = [],
        console = [Switched_to_view 1, Switched_to_subview 1, Switched_to_subview 0,
          Switched_to_view 2, Switched_to_view 3, Switched_to_view 0, Switched_to_view 1,
          Switched_to_subview 1]\<rparr> \<and>
   nav_in_bounds (presses (initial_globals []) [5, 16, 16, 5, 5, 5, 5, 16, 6, 24, 7]) \<and>
   (\<exists>g'. handle_button 16 (presses (initial_globals []) [5, 16, 16, 5, 5, 5, 5, 16, 6, 24, 7])
      = Inr g' \<and> nav_in_bounds g')"
proof -
  have run: "presses (initial_globals []) [5, 16, 16, 5, 5, 5, 5, 16, 6, 24, 7]
     = \<lparr>current_view = 1, current_subview = 1, alarm_global = Some False, channels = [],
        console = [Switched_to_view 1, Switched_to_subview 1, Switched_to_subview 0,
          Switched_to_view 2, Switched_to_view 3, Switched_to_view 0, Switched_to_view 1,
          Switched_to_subview 1]\<rparr>"
    by (simp add: presses_def press_def handle_button_pins initial_globals_def select_view_def
        cancel_alarm_def toggle_subview_def views_def py_index_def Let_def)
  have pin: "16 \<in> set BUTTONS"
    by (simp add: BUTTONS_def)
  show ?thesis
    using run pin navigation_in_bounds [of "[]" "[5, 16, 16, 5, 5, 5, 5, 16, 6, 24, 7]"]
    by blast
qed

text \<open>Claim C7. Button A (pin 5) is always handled. When \<open>current_subview\<close> is 0 it
  advances \<open>current_view\<close> by one modulo the number of views and leaves
  \<open>current_subview\<close> at 0; from the last view it returns to view 0. When
  \<open>current_subview\<close> is not 0 it changes nothing at all.\<close>

theorem next_view_gated:
  "(current_subview g = 0 \<longrightarrow>
      (\<exists>g'. handle_button 5 g = Inr g' \<and>
         current_view g' = (current_view g + 1) mod int (length views) \<and>
         current_subview g' = 0)) \<and>
   (current_subview g = 0 \<longrightarrow> current_view g = int (length views) - 1 \<longrightarrow>
      (\<exists>g'. handle_button 5 g = Inr g' \<and> current_view g' = 0 \<and> current_subview g' = 0)) \<and>
   (current_subview g \<noteq> 0 \<longrightarrow> handle_button 5 g = Inr g)"
  by (simp add: handle_button_pins select_view_def views_def Let_def)

text \<open>Claim C7 on the last view with sub-view 0, where A wraps to view 0, and on view 1
  with sub-view 1, where A changes nothing.\<close>

theorem next_view_gated_witness:
  "(\<exists>g'. handle_button 5 (presses (initial_globals []) [5, 5, 5]) = Inr g' \<and>
      current_view g' = 0 \<and> current_subview g' = 0) \<and>
   current_view (presses (initial_globals []) [5, 5, 5]) = 3 \<and>
   current_subview (presses (initial_globals []) [5, 16]) = 1 \<and>
   handle_button 5 (presses (initial_globals []) [5, 16]) = Inr (presses (initial_globals []) [5, 16])"
proof -
  have a: "current_subview (presses (initial_globals []) [5, 5, 5]) = 0"
    "current_view (presses (initial_globals []) [5, 5, 5]) = 3"
    "int (length views) - 1 = 3"
    by (simp_all add: presses_def press_def handle_button_pins initial_globals_def select_view_def
        views_def Let_def)
  have b: "current_subview (presses (initial_globals []) [5, 16]) = 1"
    by (simp add: presses_def press_def handle_button_pins initial_globals_def select_view_def
        toggle_subview_def views_def py_index_def Let_def)
  show ?thesis
    using a b next_view_gated [of "presses (initial_globals []) [5, 5, 5]"]
      next_view_gated [of "presses (initial_globals []) [5, 16]"]
    by simp
qed

text \<open>Claim C8. Button B (pin 6) is always handled: it sets \<open>alarm\<close> to false on every
  channel, whatever the state, and sets the global alarm flag to false. Whatever the
  button, the channels after the handler are the channels before it except for their
  \<open>alarm\<close> attribute, so no configuration attribute, no sensor state and no dose time
  changes; a button other than B leaves the channels exactly as they were.\<close>

theorem acknowledge_and_frame:
  "handle_button 6 g =
     Inr (g\<lparr>alarm_global := Some False,
            channels := map (\<lambda>c. c\<lparr>alarm := False\<rparr>) (channels g)\<rparr>) \<and>
   (handle_button pin g = Inr g' \<longrightarrow>
      length (channels g') = length (channels g) \<and>
      (\<forall>i < length (channels g).
         channels g' ! i = (channels g ! i)\<lparr>alarm := alarm (channels g' ! i)\<rparr>)) \<and>
   (handle_button pin g = Inr g' \<longrightarrow> pin \<noteq> 6 \<longrightarrow> channels g' = channels g)"
proof -
  have "handle_button 6 g =
     Inr (g\<lparr>alarm_global := Some False,
            channels := map (\<lambda>c. c\<lparr>alarm := False\<rparr>) (channels g)\<rparr>)"
    by (simp add: handle_button_pins cancel_alarm_def)
  moreover have "length (channels g') = length (channels g) \<and>
      (\<forall>i < length (channels g).
         channels g' ! i = (channels g ! i)\<lparr>alarm := alarm (channels g' ! i)\<rparr>)"
    if "handle_button pin g = Inr g'"
    using handle_button_channels [OF that] by simp
  moreover have "channels g' = channels g" if "handle_button pin g = Inr g'" "pin \<noteq> 6"
    using handle_button_channels [OF that(1)] that(2) by simp
  ultimately show ?thesis
    by blast
qed

text \<open>Claim C8 at the globals with the alarmed channel: B clears the alarm, A is
  handled and leaves the channel as it was.\<close>

theorem acknowledge_and_frame_witness:
  "handle_button 6 example_globals =
     Inr (example_globals\<lparr>alarm_global := Some False,
            channels := [alarmed_channel\<lparr>alarm := False\<rparr>]\<rparr>) \<and>
   handle_button 5 example_globals = Inr (select_view example_globals) \<and>
   channels (select_view example_globals) ! 0 = alarmed_channel \<and>
   channels (select_view example_globals) = channels example_globals"
proof -
  have h: "handle_button 5 example_globals = Inr (select_view example_globals)"
    by (simp add: handle_button_pins)
  have c: "channels example_globals = [alarmed_channel]"
    by (simp add: example_globals_def initial_globals_def)
  have n: "(5::int) \<noteq> 6" "0 < length (channels example_globals)"
    by (simp_all add: c)
  show ?thesis
    using h n acknowledge_and_frame [of example_globals 5 "select_view example_globals"]
    by (simp add: c)
qed

subsection \<open>Loading the settings\<close>

text \<open>Claim C9. \<open>update_from_yml\<close> is a total function on mappings: it raises nothing.
  With \<^verbatim>\<open>None\<close> it leaves the channel as it is. With a mapping, each of the nine
  recognized keys that is present sets its attribute to the value stored under it, each
  one that is absent leaves its attribute as it was, a key that is not recognized makes
  no difference to the result, and the other attributes of the channel stay.\<close>

theorem update_from_yml_applies:
  "update_from_yml None self = self \<and>
   (k \<in> set recognized_keys \<longrightarrow> cfg k = Some v \<longrightarrow>
      attribute k (update_from_yml (Some cfg) self) = v) \<and>
   (k \<in> set recognized_keys \<longrightarrow> cfg k = None \<longrightarrow>
      attribute k (update_from_yml (Some cfg) self) = attribute k self) \<and>
   (k \<notin> set recognized_keys \<longrightarrow>
      update_from_yml (Some (cfg(k \<mapsto> v))) self = update_from_yml (Some cfg) self) \<and>
   channel (update_from_yml (Some cfg) self) = channel self \<and>
   sensor (update_from_yml (Some cfg) self) = sensor self \<and>
   last_dose (update_from_yml (Some cfg) self) = last_dose self \<and>
   alarm (update_from_yml (Some cfg) self) = alarm self"
  by (auto simp: update_from_yml_def recognized_keys_def attribute_def dict_get_def)

text \<open>Claim C9 at a freshly constructed channel and the example mapping: the key
  \<^verbatim>\<open>enabled\<close> is applied, the absent key \<^verbatim>\<open>pump_time\<close> keeps the default 0.7, and the
  unknown key \<^verbatim>\<open>colour\<close> changes nothing.\<close>

theorem update_from_yml_applies_witness:
  "attribute ''enabled''
     (update_from_yml (Some example_config)
        (Channel_init 1 0 \<lparr>saturation = 0, active = True, history = []\<rparr>)) = PBool True \<and>
   attribute ''pump_time''
     (update_from_yml (Some example_config)
        (Channel_init 1 0 \<lparr>saturation = 0, active = True, history = []\<rparr>)) = PFloat (7 / 10) \<and>
   update_from_yml (Some example_config)
     (Channel_init 1 0 \<lparr>saturation = 0, active = True, history = []\<rparr>)
     = update_from_yml (Some [''enabled'' \<mapsto> PBool True])
         (Channel_init 1 0 \<lparr>saturation = 0, active = True, history = []\<rparr>)"
proof -
  let ?c = "Channel_init 1 0 \<lparr>saturation = 0, active = True, history = []\<rparr>"
  have keys: "''enabled'' \<in> set recognized_keys" "''pump_time'' \<in> set recognized_keys"
    "''colour'' \<notin> set recognized_keys"
    by (simp_all add: recognized_keys_def)
  have cfg: "example_config ''enabled'' = Some (PBool True)" "example_config ''pump_time'' = None"
    "example_config = [''enabled'' \<mapsto> PBool True](''colour'' \<mapsto> PStr ''red'')"
    by (simp_all add: example_config_def)
  have old: "attribute ''pump_time'' ?c = PFloat (7 / 10)"
    by (simp add: attribute_def Channel_init_def)
  have "attribute ''enabled'' (update_from_yml (Some example_config) ?c) = PBool True"
    using keys(1) cfg(1) update_from_yml_applies [of ?c "''enabled''" example_config "PBool True"]
    by blast
  moreover have "attribute ''pump_time'' (update_from_yml (Some example_config) ?c) = PFloat (7 / 10)"
    using keys(2) cfg(2) old update_from_yml_applies [of ?c "''pump_time''" example_config]
    by simp
  moreover have "update_from_yml (Some example_config) ?c
      = update_from_yml (Some [''enabled'' \<mapsto> PBool True]) ?c"
    using keys(3)
      update_from_yml_applies [of ?c "''colour''" "[''enabled'' \<mapsto> PBool True]" "PStr ''red''"]
    unfolding cfg(3) by blast
  ultimately show ?thesis
    by blast
qed

end
